theory Spec2Isabelle
  imports Main "HOL-Library.Word" "HOL-Library.Sublist"
begin

section \<open>Strings and truthiness\<close>

text \<open>
  A JavaScript string is a sequence of 16-bit code units. Constants of the program are
  written as ASCII literals and lifted with \<open>js\<close>.

  The request body is modelled at the JSON types the API documents: a text field is either
  absent (\<open>None\<close>, JavaScript's \<open>undefined\<close>) or a string, \<open>recipients\<close> is absent or an
  array of strings, \<open>variables\<close> is absent or an object whose values are strings or one of
  the falsy JSON values. Other JSON shapes (numbers where a string is expected, nested
  arrays, and so on) are outside the model.
\<close>

type_synonym jchar = "16 word"
type_synonym jstring = "jchar list"

definition js :: "string \<Rightarrow> jstring" where
  "js s = map of_char s"

text \<open>\<open>!v\<close> is false exactly for a present, non-empty string.\<close>

definition truthy :: "jstring option \<Rightarrow> bool" where
  "truthy v = (case v of None \<Rightarrow> False | Some s \<Rightarrow> s \<noteq> [])"

text \<open>\<open>a || b\<close>: the left operand when it is truthy, the right operand otherwise.\<close>

definition js_or :: "jstring option \<Rightarrow> jstring option \<Rightarrow> jstring option" where
  "js_or a b = (if truthy a then a else b)"

text \<open>\<open>String(v)\<close>, the coercion \<open>RegExp.prototype.test\<close> applies to its argument.\<close>

definition ToString :: "jstring option \<Rightarrow> jstring" where
  "ToString v = (case v of None \<Rightarrow> js ''undefined'' | Some s \<Rightarrow> s)"

text \<open>Decimal rendering of a length, as a template literal interpolates it.\<close>

definition digit :: "nat \<Rightarrow> char" where
  "digit d = char_of (48 + d)"

function decimal :: "nat \<Rightarrow> string" where
  "decimal n = (if n < 10 then [digit n] else decimal (n div 10) @ [digit (n mod 10)])"
  by pat_completeness auto
termination
  by (relation "measure id") auto

declare decimal.simps [simp del]

section \<open>Email validator\<close>

text \<open>
  \<^verbatim>\<open>const validateEmail = (email) => {
    const emailRegex = /^[^\s@]+@[^\s@]+\.[^\s@]+$/;
    return emailRegex.test(email);
  };\<close>

  The pattern is a sequence of items between the anchors \<open>^\<close> and \<open>$\<close>; an item is an
  atom or an atom under \<open>+\<close>; an atom is a literal code unit or the negated class
  \<open>[^\s@]\<close>. \<open>isSpace\<close> is the class \<open>\s\<close> of ECMAScript (WhiteSpace and LineTerminator).
  Without the \<open>m\<close> flag the anchors are the two ends of the input, so \<open>test\<close> is true
  exactly when the whole string matches the sequence.
\<close>

definition isSpace :: "jchar \<Rightarrow> bool" where
  "isSpace c =
     (c \<in> {0x09, 0x0A, 0x0B, 0x0C, 0x0D, 0x20, 0xA0, 0x1680, 0x2028, 0x2029, 0x202F,
            0x205F, 0x3000, 0xFEFF}
      \<or> (0x2000 \<le> c \<and> c \<le> 0x200A))"

datatype atom = Lit jchar | NotSpaceNor jchar

datatype item = One atom | Plus atom

fun atom_ok :: "atom \<Rightarrow> jchar \<Rightarrow> bool" where
  "atom_ok (Lit d) c = (c = d)"
| "atom_ok (NotSpaceNor d) c = (\<not> isSpace c \<and> c \<noteq> d)"

fun matches :: "item list \<Rightarrow> jstring \<Rightarrow> bool" where
  "matches [] s = (s = [])"
| "matches (i # r) [] = False"
| "matches (One a # r) (c # cs) = (atom_ok a c \<and> matches r cs)"
| "matches (Plus a # r) (c # cs) = (atom_ok a c \<and> (matches (Plus a # r) cs \<or> matches r cs))"

abbreviation at_sign :: jchar where "at_sign \<equiv> 0x40"
abbreviation dot :: jchar where "dot \<equiv> 0x2E"

definition emailRegex :: "item list" where
  "emailRegex =
     [Plus (NotSpaceNor at_sign), One (Lit at_sign), Plus (NotSpaceNor at_sign), One (Lit dot),
      Plus (NotSpaceNor at_sign)]"

definition validateEmail :: "jstring \<Rightarrow> bool" where
  "validateEmail email = matches emailRegex email"

text \<open>
  The specification's description of the pattern, written independently of the matcher:
  a non-empty run of code units that are neither whitespace nor \<open>@\<close>, then \<open>@\<close>, then
  such a run, then a dot, then such a run.
\<close>

definition plain_run :: "jstring \<Rightarrow> bool" where
  "plain_run s = (s \<noteq> [] \<and> (\<forall>c \<in> set s. \<not> isSpace c \<and> c \<noteq> at_sign))"

definition email_shape :: "jstring \<Rightarrow> bool" where
  "email_shape s =
     (\<exists>local domain tld. s = local @ [at_sign] @ domain @ [dot] @ tld
        \<and> plain_run local \<and> plain_run domain \<and> plain_run tld)"

section \<open>Transport factory\<close>

text \<open>
  \<^verbatim>\<open>const createTransporter = (service = 'gmail') => {
    const config = { gmail: {...}, outlook: {...}, smtp: {...} };
    return nodemailer.createTransport(config[service] || config.gmail);
  };\<close>

  The process environment is a partial map from variable names to strings. \<open>config\<close> is an
  object literal, so \<open>config[service]\<close> finds an own property first and otherwise a
  property inherited from \<open>Object.prototype\<close>; only when both are missing is the value
  \<open>undefined\<close>. The inherited members are functions (or, for \<open>__proto__\<close>, the prototype
  object itself) and therefore truthy.
\<close>

type_synonym environment = "string \<Rightarrow> jstring option"

record auth =
  user :: "jstring option"
  pass :: "jstring option"

datatype port = PortString jstring | PortNumber nat

datatype profile =
    ServiceProfile jstring auth
  | HostProfile "jstring option" port bool auth

datatype 'a property = Own 'a | Inherited jstring | Undefined

definition object_prototype_keys :: "jstring list" where
  "object_prototype_keys =
     map js [''constructor'', ''__defineGetter__'', ''__defineSetter__'', ''hasOwnProperty'',
             ''__lookupGetter__'', ''__lookupSetter__'', ''isPrototypeOf'',
             ''propertyIsEnumerable'', ''toString'', ''valueOf'', ''__proto__'',
             ''toLocaleString'']"

definition get_property :: "(jstring \<times> 'a) list \<Rightarrow> jstring \<Rightarrow> 'a property" where
  "get_property obj key =
     (case map_of obj key of
        Some v \<Rightarrow> Own v
      | None \<Rightarrow> if key \<in> set object_prototype_keys then Inherited key else Undefined)"

definition gmail_profile :: "environment \<Rightarrow> profile" where
  "gmail_profile env =
     ServiceProfile (js ''gmail'') \<lparr>user = env ''GMAIL_USER'', pass = env ''GMAIL_APP_PASSWORD''\<rparr>"

definition outlook_profile :: "environment \<Rightarrow> profile" where
  "outlook_profile env =
     ServiceProfile (js ''hotmail'') \<lparr>user = env ''OUTLOOK_USER'', pass = env ''OUTLOOK_PASSWORD''\<rparr>"

definition smtp_profile :: "environment \<Rightarrow> profile" where
  "smtp_profile env =
     HostProfile (env ''SMTP_HOST'')
       (if truthy (env ''SMTP_PORT'') then PortString (ToString (env ''SMTP_PORT''))
        else PortNumber 587)
       (env ''SMTP_SECURE'' = Some (js ''true''))
       \<lparr>user = env ''SMTP_USER'', pass = env ''SMTP_PASSWORD''\<rparr>"

definition config :: "environment \<Rightarrow> (jstring \<times> profile) list" where
  "config env =
     [(js ''gmail'', gmail_profile env), (js ''outlook'', outlook_profile env),
      (js ''smtp'', smtp_profile env)]"

text \<open>
  What \<open>nodemailer.createTransport\<close> receives: one of the profiles, or a member of
  \<open>Object.prototype\<close>. The client it returns is identified with that argument.
\<close>

datatype transport = FromProfile profile | FromPrototype jstring

definition createTransporter :: "environment \<Rightarrow> jstring option \<Rightarrow> transport" where
  "createTransporter env service_arg =
     (let service = (case service_arg of None \<Rightarrow> js ''gmail'' | Some s \<Rightarrow> s) in
      case get_property (config env) service of
        Own p \<Rightarrow> FromProfile p
      | Inherited name \<Rightarrow> FromPrototype name
      | Undefined \<Rightarrow> FromProfile (gmail_profile env))"

section \<open>Requests, the mail provider and replies\<close>

text \<open>
  \<open>req.body\<close>: every field a handler destructures, absent fields as \<open>None\<close>. A value of
  \<open>variables\<close> is a string or one of the falsy JSON values \<open>null\<close>, \<open>false\<close>, \<open>0\<close>; the
  list holds the object's own properties in the order \<open>Object.keys\<close> enumerates them.
\<close>

datatype jvalue = JString jstring | JNull | JFalse | JZero

record request_body =
  req_to :: "jstring option"
  req_recipients :: "jstring list option"
  req_subject :: "jstring option"
  req_text :: "jstring option"
  req_html :: "jstring option"
  req_from :: "jstring option"
  req_service :: "jstring option"
  req_attachments :: "jstring list option"
  req_template :: "jstring option"
  req_variables :: "(jstring \<times> jvalue) list option"

record mail_options =
  mail_from :: "jstring option"
  mail_to :: "jstring option"
  mail_subject :: "jstring option"
  mail_text :: "jstring option"
  mail_html :: "jstring option"
  mail_attachments :: "jstring list option"

record info =
  messageId :: jstring
  response :: jstring

text \<open>
  \<open>await transporter.sendMail(mailOptions)\<close> either yields an \<open>info\<close> object or throws an
  error with a message. The provider is a parameter: it answers the \<open>i\<close>-th call made on a
  transport (counting from 0) with \<open>Inr info\<close> or \<open>Inl message\<close>.
\<close>

type_synonym provider = "transport \<Rightarrow> nat \<Rightarrow> mail_options \<Rightarrow> jstring + info"

datatype event =
    CreateTransport transport
  | SendMail transport mail_options
  | ConsoleError string jstring

datatype delivery = Delivered jstring jstring

datatype failure = Failed jstring jstring

datatype body =
    Error string
  | ErrorDetails string jstring
  | InvalidEmails string "jstring list"
  | TemplateNotFound string "jstring list"
  | EmailSent string jstring jstring
  | BulkCompleted string "delivery list" "failure list"
  | TemplateSent string jstring jstring

record reply =
  status :: nat
  body :: body

text \<open>\<open>from || process.env.DEFAULT_FROM_EMAIL || process.env.GMAIL_USER\<close>\<close>

definition sender :: "environment \<Rightarrow> jstring option \<Rightarrow> jstring option" where
  "sender env from_field = js_or (js_or from_field (env ''DEFAULT_FROM_EMAIL'')) (env ''GMAIL_USER'')"

text \<open>The destructuring default \<open>service = 'gmail'\<close> applies to an absent field only.\<close>

definition service_or_default :: "jstring option \<Rightarrow> jstring option" where
  "service_or_default s = (case s of None \<Rightarrow> Some (js ''gmail'') | Some v \<Rightarrow> Some v)"

section \<open>POST /send-email\<close>

definition send_email :: "environment \<Rightarrow> provider \<Rightarrow> request_body \<Rightarrow> reply \<times> event list" where
  "send_email env provider req =
     (let to = req_to req; subject = req_subject req; text_field = req_text req;
          html = req_html req; from_field = req_from req;
          service = service_or_default (req_service req);
          attachments = (case req_attachments req of None \<Rightarrow> [] | Some a \<Rightarrow> a)
      in
      if \<not> truthy to \<or> \<not> truthy subject \<or> (\<not> truthy text_field \<and> \<not> truthy html) then
        (\<lparr>status = 400,
          body = Error ''Missing required fields: to, subject, and either text or html''\<rparr>, [])
      else if \<not> validateEmail (ToString to) then
        (\<lparr>status = 400, body = Error ''Invalid recipient email address''\<rparr>, [])
      else if truthy from_field \<and> \<not> validateEmail (ToString from_field) then
        (\<lparr>status = 400, body = Error ''Invalid sender email address''\<rparr>, [])
      else
        let transporter = createTransporter env service;
            mailOptions = \<lparr>mail_from = sender env from_field, mail_to = to,
                           mail_subject = subject, mail_text = text_field, mail_html = html,
                           mail_attachments = Some attachments\<rparr>
        in
        case provider transporter 0 mailOptions of
          Inr info \<Rightarrow>
            (\<lparr>status = 200,
              body = EmailSent ''Email sent successfully'' (messageId info) (response info)\<rparr>,
             [CreateTransport transporter, SendMail transporter mailOptions])
        | Inl message \<Rightarrow>
            (\<lparr>status = 500, body = ErrorDetails ''Failed to send email'' message\<rparr>,
             [CreateTransport transporter, SendMail transporter mailOptions,
              ConsoleError ''Email sending error:'' message]))"

section \<open>POST /send-bulk-email\<close>

text \<open>
  The loop \<open>for (const recipient of recipients) { try { ... } catch (error) { ... } }\<close>:
  one \<open>sendMail\<close> call per recipient, in order; the accumulator holds \<open>results\<close>,
  \<open>errors\<close> and the calls made so far.
\<close>

fun send_each ::
  "provider \<Rightarrow> transport \<Rightarrow> (jstring \<Rightarrow> mail_options) \<Rightarrow> nat \<Rightarrow> jstring list
     \<Rightarrow> delivery list \<times> failure list \<times> event list
     \<Rightarrow> delivery list \<times> failure list \<times> event list" where
  "send_each provider transporter mailOptions i [] acc = acc"
| "send_each provider transporter mailOptions i (recipient # rest) (results, errors, events) =
     (case provider transporter i (mailOptions recipient) of
        Inr info \<Rightarrow>
          send_each provider transporter mailOptions (Suc i) rest
            (results @ [Delivered recipient (messageId info)], errors,
             events @ [SendMail transporter (mailOptions recipient)])
      | Inl message \<Rightarrow>
          send_each provider transporter mailOptions (Suc i) rest
            (results, errors @ [Failed recipient message],
             events @ [SendMail transporter (mailOptions recipient)]))"

definition bulk_message :: "nat \<Rightarrow> nat \<Rightarrow> string" where
  "bulk_message sent failed =
     ''Bulk email completed. '' @ decimal sent @ '' sent, '' @ decimal failed @ '' failed''"

definition send_bulk_email ::
  "environment \<Rightarrow> provider \<Rightarrow> request_body \<Rightarrow> reply \<times> event list" where
  "send_bulk_email env provider req =
     (let subject = req_subject req; text_field = req_text req; html = req_html req;
          from_field = req_from req; service = service_or_default (req_service req)
      in
      case req_recipients req of
        None \<Rightarrow>
          (\<lparr>status = 400, body = Error ''Recipients array is required and cannot be empty''\<rparr>, [])
      | Some recipients \<Rightarrow>
          if length recipients = 0 then
            (\<lparr>status = 400, body = Error ''Recipients array is required and cannot be empty''\<rparr>,
             [])
          else if \<not> truthy subject \<or> (\<not> truthy text_field \<and> \<not> truthy html) then
            (\<lparr>status = 400,
              body = Error ''Missing required fields: subject, and either text or html''\<rparr>, [])
          else
            let invalidEmails = filter (\<lambda>email. \<not> validateEmail email) recipients in
            if length invalidEmails > 0 then
              (\<lparr>status = 400,
                body = InvalidEmails ''Invalid email addresses found'' invalidEmails\<rparr>, [])
            else if length recipients > 50 then
              (\<lparr>status = 400, body = Error ''Maximum 50 recipients allowed per bulk email''\<rparr>,
               [])
            else
              let transporter = createTransporter env service;
                  mailOptions = (\<lambda>recipient.
                    \<lparr>mail_from = sender env from_field, mail_to = Some recipient,
                     mail_subject = subject, mail_text = text_field, mail_html = html,
                     mail_attachments = None\<rparr>);
                  (results, errors, events) =
                    send_each provider transporter mailOptions 0 recipients
                      ([], [], [CreateTransport transporter])
              in
              (\<lparr>status = 200,
                body = BulkCompleted (bulk_message (length results) (length errors))
                         results errors\<rparr>,
               events))"

section \<open>POST /send-template-email\<close>

subsection \<open>Template registry\<close>

record template =
  tpl_subject :: jstring
  tpl_html :: jstring

text \<open>A template literal spanning several source lines: the lines joined by line feeds.\<close>

fun joinLines :: "jstring list \<Rightarrow> jstring" where
  "joinLines [] = []"
| "joinLines [l] = l"
| "joinLines (l # ls) = l @ [0x0A] @ joinLines ls"

definition welcome_html :: jstring where
  \<open>welcome_html =
     joinLines
      [js '''',
       js ''          <h1>Welcome {{name}}!</h1>'',
       js ''          <p>Thank you for joining {{appName}}. We're excited to have you on board!</p>'',
       js ''          <p>Best regards,<br>The {{appName}} Team</p>'',
       js ''        '']\<close>

definition art_submission_html :: jstring where
  \<open>art_submission_html =
     joinLines
      [js '''',
       js ''          <h2>Hello Seller</h2>'',
       js '''',
       js ''          <p>Great news! You've received a new order for your artwork on <strong>Art_Gallery</strong>.</p>'',
       js '''',
       js ''          <h3>'' @ [0xF0, 0x178, 0x17D, 0xA8] @ js '' Artwork Details:</h3>'',
       js ''          <img src="{{imageUrl}}" alt="Artwork image" style="max-width: 100%; height: auto; border: 1px solid #ddd; padding: 4px;" />'',
       js '''',
       js ''          <ul>'',
       js ''            <li><strong>Description:</strong> {{description}}</li>'',
       js ''            <li><strong>Dimensions:</strong> {{dimensions}}</li>'',
       js ''            <li><strong>Medium:</strong> {{medium}}</li>'',
       js ''          </ul>'',
       js '''',
       js ''          <h3>'' @ [0xF0, 0x178, 0xA7, 0xBE] @ js '' Buyer Details:</h3>'',
       js ''          <ul>'',
       js ''            <li><strong>Full Name:</strong> {{buyerName}}</li>'',
       js ''            <li><strong>Email:</strong> {{buyerEmail}}</li>'',
       js ''            <li><strong>Shipping Address:</strong> {{address}}</li>'',
       js ''          </ul>'',
       js ''        '']\<close>

definition reset_password_html :: jstring where
  \<open>reset_password_html =
     joinLines
      [js '''',
       js ''          <h1>Password Reset</h1>'',
       js ''          <p>Hi {{name}},</p>'',
       js ''          <p>You requested a password reset. Click the link below to reset your password:</p>'',
       js ''          <p><a href="{{resetLink}}">Reset Password</a></p>'',
       js ''          <p>If you didn't request this, please ignore this email.</p>'',
       js ''        '']\<close>

definition notification_html :: jstring where
  \<open>notification_html =
     joinLines
      [js '''',
       js ''          <h1>{{title}}</h1>'',
       js ''          <p>{{message}}</p>'',
       js ''          <p>Best regards,<br>{{senderName}}</p>'',
       js ''        '']\<close>

definition templates :: "(jstring \<times> template) list" where
  "templates =
     [(js ''welcome'',
       \<lparr>tpl_subject = js ''Welcome to {{appName}}!'', tpl_html = welcome_html\<rparr>),
      (js ''art_submission'',
       \<lparr>tpl_subject = js ''New Order Received for Your Artwork on Art_Gallery!'',
        tpl_html = art_submission_html\<rparr>),
      (js ''reset_password'',
       \<lparr>tpl_subject = js ''Password Reset Request'', tpl_html = reset_password_html\<rparr>),
      (js ''notification'',
       \<lparr>tpl_subject = js ''{{subject}}'', tpl_html = notification_html\<rparr>)]"

subsection \<open>Variable substitution\<close>

text \<open>
  \<^verbatim>\<open>Object.keys(variables).forEach(key => {
    const regex = new RegExp(`{{${key}}}`, 'g');
    subject = subject.replace(regex, variables[key] || '');
    html = html.replace(regex, variables[key] || '');
  });\<close>

  The pattern source is the key between two pairs of braces. For a key without pattern
  syntax characters that is not the body of a braced quantifier (\<open>{{3}}\<close> would read as
  \<open>{\<close> repeated three times, then \<open>}\<close>), the pattern has no groups and matches exactly
  the code units of \<open>token key\<close>. Only such keys are modelled.
\<close>

definition token :: "jstring \<Rightarrow> jstring" where
  "token key = js ''{{'' @ key @ js ''}}''"

definition syntax_characters :: "jchar list" where
  "syntax_characters = js ''^$.*+?()[]{}|'' @ [0x5C]"

definition isDigit :: "jchar \<Rightarrow> bool" where
  "isDigit c = (0x30 \<le> c \<and> c \<le> 0x39)"

definition quantifier_body :: "jstring \<Rightarrow> bool" where
  "quantifier_body key =
     (takeWhile isDigit key \<noteq> [] \<and>
      (case dropWhile isDigit key of
         [] \<Rightarrow> True
       | c # upper \<Rightarrow> c = 0x2C \<and> list_all isDigit upper))"

definition plain_key :: "jstring \<Rightarrow> bool" where
  "plain_key key = (list_all (\<lambda>c. c \<notin> set syntax_characters) key \<and> \<not> quantifier_body key)"

text \<open>\<open>variables[key] || ''\<close>\<close>

definition or_empty :: "jvalue option \<Rightarrow> jstring" where
  "or_empty v = (case v of Some (JString s) \<Rightarrow> s | _ \<Rightarrow> [])"

text \<open>
  \<open>String.prototype.replace\<close> with a string as second argument expands it by the
  abstract operation GetSubstitution: \<open>$$\<close> is a dollar sign, \<open>$&\<close> the matched text,
  \<open>$`\<close> the part of the input before the match and \<open>$'\<close> the part after it. The pattern
  has no capture groups, so \<open>$1\<close> .. \<open>$99\<close> and \<open>$<\<close> are copied as they are.
\<close>

fun GetSubstitution :: "jstring \<Rightarrow> jstring \<Rightarrow> jstring \<Rightarrow> jstring \<Rightarrow> jstring" where
  "GetSubstitution matched preceding following [] = []"
| "GetSubstitution matched preceding following [c] = [c]"
| "GetSubstitution matched preceding following (c # d # rest) =
     (if c = 0x24 \<and> d = 0x24 then 0x24 # GetSubstitution matched preceding following rest
      else if c = 0x24 \<and> d = 0x26 then matched @ GetSubstitution matched preceding following rest
      else if c = 0x24 \<and> d = 0x60 then preceding @ GetSubstitution matched preceding following rest
      else if c = 0x24 \<and> d = 0x27 then following @ GetSubstitution matched preceding following rest
      else c # GetSubstitution matched preceding following (d # rest))"

text \<open>
  A global replace scans the input from left to right: where the token starts, the
  expansion is emitted and the scan resumes behind the token; elsewhere one code unit is
  copied. \<open>scanned\<close> is the part of the input already scanned.
\<close>

function replace_from :: "jstring \<Rightarrow> jstring \<Rightarrow> jstring \<Rightarrow> jstring \<Rightarrow> jstring" where
  "replace_from key replacement scanned [] = []"
| "replace_from key replacement scanned (c # cs) =
     (if prefix (token key) (c # cs) then
        GetSubstitution (token key) scanned (drop (length (token key)) (c # cs)) replacement
          @ replace_from key replacement (scanned @ token key)
              (drop (length (token key)) (c # cs))
      else c # replace_from key replacement (scanned @ [c]) cs)"
  by pat_completeness auto
termination
  by (relation "measure (\<lambda>(key, replacement, scanned, rest). length rest)")
     (auto simp: token_def js_def)

definition replace_global :: "jstring \<Rightarrow> jstring \<Rightarrow> jstring \<Rightarrow> jstring" where
  "replace_global key replacement s = replace_from key replacement [] s"

fun render ::
  "(jstring \<times> jvalue) list \<Rightarrow> jstring list \<Rightarrow> jstring \<times> jstring \<Rightarrow> jstring \<times> jstring" where
  "render variables [] (subject, html) = (subject, html)"
| "render variables (key # keys) (subject, html) =
     render variables keys
       (replace_global key (or_empty (map_of variables key)) subject,
        replace_global key (or_empty (map_of variables key)) html)"

subsection \<open>The handler\<close>

text \<open>
  \<open>templates[template]\<close> is again a property read on an object literal. A member of
  \<open>Object.prototype\<close> has neither \<open>subject\<close> nor \<open>html\<close>, so both are \<open>undefined\<close>, and the
  first \<open>subject.replace\<close> throws a TypeError. The result is \<open>None\<close> when a key of
  \<open>variables\<close> is not a plain key.
\<close>

definition send_template_email ::
  "environment \<Rightarrow> provider \<Rightarrow> request_body \<Rightarrow> (reply \<times> event list) option" where
  "send_template_email env provider req =
     (let to = req_to req; template = req_template req;
          variables = (case req_variables req of None \<Rightarrow> [] | Some v \<Rightarrow> v);
          service = service_or_default (req_service req); from_field = req_from req
      in
      if \<not> truthy to \<or> \<not> truthy template then
        Some (\<lparr>status = 400, body = Error ''Missing required fields: to, template''\<rparr>, [])
      else if \<not> validateEmail (ToString to) then
        Some (\<lparr>status = 400, body = Error ''Invalid recipient email address''\<rparr>, [])
      else
        let send = (\<lambda>subject html.
              let transporter = createTransporter env service;
                  mailOptions = \<lparr>mail_from = sender env from_field, mail_to = to,
                                 mail_subject = subject, mail_text = None, mail_html = html,
                                 mail_attachments = None\<rparr>
              in
              case provider transporter 0 mailOptions of
                Inr info \<Rightarrow>
                  (\<lparr>status = 200,
                    body = TemplateSent ''Template email sent successfully'' (messageId info)
                             (ToString template)\<rparr>,
                   [CreateTransport transporter, SendMail transporter mailOptions])
              | Inl message \<Rightarrow>
                  (\<lparr>status = 500,
                    body = ErrorDetails ''Failed to send template email'' message\<rparr>,
                   [CreateTransport transporter, SendMail transporter mailOptions,
                    ConsoleError ''Template email sending error:'' message]))
        in
        case get_property templates (ToString template) of
          Undefined \<Rightarrow>
            Some (\<lparr>status = 400,
                   body = TemplateNotFound ''Template not found'' (map fst templates)\<rparr>, [])
        | Inherited name \<Rightarrow>
            (case map fst variables of
               [] \<Rightarrow> Some (send None None)
             | key # keys \<Rightarrow>
                 if plain_key key then
                   Some (\<lparr>status = 500,
                          body = ErrorDetails ''Failed to send template email''
                            (js ''Cannot read properties of undefined (reading 'replace')'')\<rparr>,
                         [ConsoleError ''Template email sending error:''
                            (js ''Cannot read properties of undefined (reading 'replace')'')])
                 else None)
        | Own selectedTemplate \<Rightarrow>
            if list_all plain_key (map fst variables) then
              (let (subject, html) =
                     render variables (map fst variables)
                       (tpl_subject selectedTemplate, tpl_html selectedTemplate)
               in Some (send (Some subject) (Some html)))
            else None)"

section \<open>Notions used in the statements\<close>

text \<open>The recipients of the \<open>sendMail\<close> calls in a trace, in call order.\<close>

fun sent_to :: "event list \<Rightarrow> jstring option list" where
  "sent_to [] = []"
| "sent_to (SendMail t m # es) = mail_to m # sent_to es"
| "sent_to (e # es) = sent_to es"

text \<open>
  The transport and the message of a bulk request, and what the provider's answers make of
  a list of recipients: call \<open>i\<close> answers for the \<open>i\<close>-th recipient alone, an accepted
  call is a delivery and a rejected call a failure.
\<close>

definition bulk_transport :: "environment \<Rightarrow> request_body \<Rightarrow> transport" where
  "bulk_transport env req = createTransporter env (service_or_default (req_service req))"

definition bulk_mail :: "environment \<Rightarrow> request_body \<Rightarrow> jstring \<Rightarrow> mail_options" where
  "bulk_mail env req recipient =
     \<lparr>mail_from = sender env (req_from req), mail_to = Some recipient,
      mail_subject = req_subject req, mail_text = req_text req, mail_html = req_html req,
      mail_attachments = None\<rparr>"

fun deliveries ::
  "provider \<Rightarrow> transport \<Rightarrow> (jstring \<Rightarrow> mail_options) \<Rightarrow> nat \<Rightarrow> jstring list \<Rightarrow> delivery list" where
  "deliveries provider t mk i [] = []"
| "deliveries provider t mk i (r # rs) =
     (case provider t i (mk r) of
        Inr info \<Rightarrow> [Delivered r (messageId info)]
      | Inl message \<Rightarrow> []) @ deliveries provider t mk (Suc i) rs"

fun failures ::
  "provider \<Rightarrow> transport \<Rightarrow> (jstring \<Rightarrow> mail_options) \<Rightarrow> nat \<Rightarrow> jstring list \<Rightarrow> failure list" where
  "failures provider t mk i [] = []"
| "failures provider t mk i (r # rs) =
     (case provider t i (mk r) of
        Inr info \<Rightarrow> []
      | Inl message \<Rightarrow> [Failed r message]) @ failures provider t mk (Suc i) rs"

text \<open>
  A template text in placeholder form is a sequence of segments: text without braces, and
  placeholders \<open>{{key}}\<close> whose key has no braces. \<open>placeholder_text\<close> recognises such
  strings in one pass; all four registry templates are of this form.
\<close>

abbreviation lbrace :: jchar where "lbrace \<equiv> 0x7B"
abbreviation rbrace :: jchar where "rbrace \<equiv> 0x7D"
abbreviation dollar :: jchar where "dollar \<equiv> 0x24"

datatype segment = Text jstring | Placeholder jstring

fun flatten :: "segment list \<Rightarrow> jstring" where
  "flatten [] = []"
| "flatten (Text s # segs) = s @ flatten segs"
| "flatten (Placeholder key # segs) = token key @ flatten segs"

definition brace_free :: "jstring \<Rightarrow> bool" where
  "brace_free s = list_all (\<lambda>c. c \<noteq> lbrace \<and> c \<noteq> rbrace) s"

fun segment_ok :: "segment \<Rightarrow> bool" where
  "segment_ok (Text s) = brace_free s"
| "segment_ok (Placeholder key) = brace_free key"

definition placeholder_form :: "segment list \<Rightarrow> bool" where
  "placeholder_form segs = list_all segment_ok segs"

datatype scan_state = Outside | Opening | Inside | Closing

fun in_form :: "scan_state \<Rightarrow> jstring \<Rightarrow> bool" where
  "in_form st [] = (st = Outside)"
| "in_form Outside (c # cs) =
     (if c = lbrace then in_form Opening cs else c \<noteq> rbrace \<and> in_form Outside cs)"
| "in_form Opening (c # cs) = (c = lbrace \<and> in_form Inside cs)"
| "in_form Inside (c # cs) =
     (if c = rbrace then in_form Closing cs else c \<noteq> lbrace \<and> in_form Inside cs)"
| "in_form Closing (c # cs) = (c = rbrace \<and> in_form Outside cs)"

definition placeholder_text :: "jstring \<Rightarrow> bool" where
  "placeholder_text s = in_form Outside s"

text \<open>Replacing one key in a segment list, and the outcome of replacing a list of keys.\<close>

fun substitute :: "jstring \<Rightarrow> jstring \<Rightarrow> segment \<Rightarrow> segment" where
  "substitute key v (Text s) = Text s"
| "substitute key v (Placeholder k) = (if k = key then Text v else Placeholder k)"

fun fill :: "(jstring \<times> jvalue) list \<Rightarrow> jstring list \<Rightarrow> segment \<Rightarrow> segment" where
  "fill variables keys (Text s) = Text s"
| "fill variables keys (Placeholder k) =
     (if k \<in> set keys then Text (or_empty (map_of variables k)) else Placeholder k)"

text \<open>A value without braces and without the dollar sign that starts a replacement pattern.\<close>

definition safe_value :: "jstring \<Rightarrow> bool" where
  "safe_value v = list_all (\<lambda>c. c \<noteq> lbrace \<and> c \<noteq> rbrace \<and> c \<noteq> dollar) v"

section \<open>Example inputs\<close>

definition no_environment :: environment where
  "no_environment = (\<lambda>name. None)"

definition accepting_provider :: provider where
  "accepting_provider = (\<lambda>t i m. Inr \<lparr>messageId = js ''<1@mail>'', response = js ''250 OK''\<rparr>)"

definition second_call_fails :: provider where
  "second_call_fails =
     (\<lambda>t i m. if i = 1 then Inl (js ''Mailbox unavailable'')
               else Inr \<lparr>messageId = js ''<1@mail>'', response = js ''250 OK''\<rparr>)"

definition empty_request :: request_body where
  "empty_request =
     \<lparr>req_to = None, req_recipients = None, req_subject = None, req_text = None,
      req_html = None, req_from = None, req_service = None, req_attachments = None,
      req_template = None, req_variables = None\<rparr>"

text \<open>Variable mappings for the templates \<open>notification\<close> and \<open>welcome\<close>.\<close>

definition hello_variables :: "(jstring \<times> jvalue) list" where
  "hello_variables =
     [(js ''subject'', JString (js ''Hi'')), (js ''title'', JString (js ''T'')),
      (js ''message'', JZero), (js ''senderName'', JString (js ''S''))]"

definition chained_variables :: "(jstring \<times> jvalue) list" where
  "chained_variables =
     [(js ''subject'', JString (js ''{{title}}'')), (js ''title'', JString (js ''T''))]"

definition cash_variables :: "(jstring \<times> jvalue) list" where
  "cash_variables = [(js ''name'', JString (js ''Al'')), (js ''appName'', JString (js ''Cash$$''))]"

section \<open>Email validator: proofs\<close>

lemma matches_Plus:
  "matches (Plus a # r) s \<longleftrightarrow>
     (\<exists>u v. s = u @ v \<and> u \<noteq> [] \<and> (\<forall>c \<in> set u. atom_ok a c) \<and> matches r v)"
proof (induction s)
  case Nil
  then show ?case by simp
next
  case (Cons c cs)
  show ?case
  proof
    assume m: "matches (Plus a # r) (c # cs)"
    then have ok: "atom_ok a c" by simp
    from m have "matches (Plus a # r) cs \<or> matches r cs" by simp
    then show "\<exists>u v. c # cs = u @ v \<and> u \<noteq> [] \<and> (\<forall>c \<in> set u. atom_ok a c) \<and> matches r v"
    proof
      assume "matches (Plus a # r) cs"
      with Cons.IH obtain u v where "cs = u @ v" "\<forall>c \<in> set u. atom_ok a c" "matches r v"
        by blast
      with ok have "c # cs = (c # u) @ v \<and> c # u \<noteq> [] \<and> (\<forall>x \<in> set (c # u). atom_ok a x) \<and> matches r v"
        by simp
      then show ?thesis by blast
    next
      assume "matches r cs"
      with ok have "c # cs = [c] @ cs \<and> [c] \<noteq> [] \<and> (\<forall>x \<in> set [c]. atom_ok a x) \<and> matches r cs"
        by simp
      then show ?thesis by blast
    qed
  next
    assume "\<exists>u v. c # cs = u @ v \<and> u \<noteq> [] \<and> (\<forall>c \<in> set u. atom_ok a c) \<and> matches r v"
    then obtain u v where uv: "c # cs = u @ v" "u \<noteq> []" "\<forall>c \<in> set u. atom_ok a c" "matches r v"
      by blast
    then obtain u' where u: "u = c # u'" by (cases u) auto
    with uv have ok: "atom_ok a c" and cs: "cs = u' @ v" by auto
    show "matches (Plus a # r) (c # cs)"
    proof (cases "u' = []")
      case True
      with cs uv ok show ?thesis by simp
    next
      case False
      with cs uv u have "matches (Plus a # r) cs" using Cons.IH by auto
      with ok show ?thesis by simp
    qed
  qed
qed

lemma matches_One:
  "matches (One a # r) s \<longleftrightarrow> (\<exists>c v. s = c # v \<and> atom_ok a c \<and> matches r v)"
  by (cases s) auto

lemma matches_PlusI:
  "u \<noteq> [] \<Longrightarrow> \<forall>c \<in> set u. atom_ok a c \<Longrightarrow> matches r v \<Longrightarrow> matches (Plus a # r) (u @ v)"
  unfolding matches_Plus by blast

lemma validateEmail_iff_shape: "validateEmail s \<longleftrightarrow> email_shape s"
proof
  assume "validateEmail s"
  then obtain l r1 where 1: "s = l @ r1" "l \<noteq> []" "\<forall>c \<in> set l. atom_ok (NotSpaceNor at_sign) c"
      "matches [One (Lit at_sign), Plus (NotSpaceNor at_sign), One (Lit dot), Plus (NotSpaceNor at_sign)] r1"
    unfolding validateEmail_def emailRegex_def matches_Plus by blast
  then obtain r2 where 2: "r1 = at_sign # r2"
      "matches [Plus (NotSpaceNor at_sign), One (Lit dot), Plus (NotSpaceNor at_sign)] r2"
    unfolding matches_One by auto
  then obtain d r3 where 3: "r2 = d @ r3" "d \<noteq> []" "\<forall>c \<in> set d. atom_ok (NotSpaceNor at_sign) c"
      "matches [One (Lit dot), Plus (NotSpaceNor at_sign)] r3"
    unfolding matches_Plus by blast
  then obtain r4 where 4: "r3 = dot # r4" "matches [Plus (NotSpaceNor at_sign)] r4"
    unfolding matches_One by auto
  then obtain t where 5: "r4 = t" "t \<noteq> []" "\<forall>c \<in> set t. atom_ok (NotSpaceNor at_sign) c"
    unfolding matches_Plus by auto
  have "s = l @ [at_sign] @ d @ [dot] @ t" using 1 2 3 4 5 by simp
  moreover have "plain_run l" "plain_run d" "plain_run t"
    using 1 3 5 by (simp_all add: plain_run_def)
  ultimately show "email_shape s" unfolding email_shape_def by blast
next
  assume "email_shape s"
  then obtain l d t where s: "s = l @ [at_sign] @ d @ [dot] @ t"
    and r: "plain_run l" "plain_run d" "plain_run t"
    unfolding email_shape_def by blast
  from r have ok: "l \<noteq> []" "\<forall>c \<in> set l. atom_ok (NotSpaceNor at_sign) c"
      "d \<noteq> []" "\<forall>c \<in> set d. atom_ok (NotSpaceNor at_sign) c"
      "t \<noteq> []" "\<forall>c \<in> set t. atom_ok (NotSpaceNor at_sign) c"
    by (simp_all add: plain_run_def)
  have "matches [] []" by simp
  from matches_PlusI [OF ok(5,6) this]
  have "matches [One (Lit dot), Plus (NotSpaceNor at_sign)] (dot # t)" by simp
  from matches_PlusI [OF ok(3,4) this]
  have "matches [One (Lit at_sign), Plus (NotSpaceNor at_sign), One (Lit dot),
                Plus (NotSpaceNor at_sign)] (at_sign # d @ dot # t)"
    by simp
  from matches_PlusI [OF ok(1,2) this]
  show "validateEmail s" by (simp add: validateEmail_def emailRegex_def s)
qed

text \<open>
  C7. \<open>validateEmail\<close> accepts exactly the strings of the shape the specification
  describes (a run of code units that are neither whitespace nor \<open>@\<close>, an \<open>@\<close>, such a
  run, a dot, such a run); it rejects every string without an \<open>@\<close> and every string in
  which no dot follows an \<open>@\<close>. It is a function of its argument alone.
\<close>

theorem validateEmail_pattern:
  "(validateEmail s \<longleftrightarrow> email_shape s)
   \<and> (at_sign \<notin> set s \<longrightarrow> \<not> validateEmail s)
   \<and> ((\<forall>a b. s = a @ at_sign # b \<longrightarrow> dot \<notin> set b) \<longrightarrow> \<not> validateEmail s)"
proof (intro conjI impI)
  show "validateEmail s \<longleftrightarrow> email_shape s" by (rule validateEmail_iff_shape)
next
  assume "at_sign \<notin> set s"
  then have "\<not> email_shape s" by (auto simp: email_shape_def)
  then show "\<not> validateEmail s" by (simp add: validateEmail_iff_shape)
next
  assume no_dot: "\<forall>a b. s = a @ at_sign # b \<longrightarrow> dot \<notin> set b"
  have "\<not> email_shape s"
  proof
    assume "email_shape s"
    then obtain l d t where "s = l @ at_sign # (d @ dot # t)"
      by (auto simp: email_shape_def)
    with no_dot have "dot \<notin> set (d @ dot # t)" by blast
    then show False by simp
  qed
  then show "\<not> validateEmail s" by (simp add: validateEmail_iff_shape)
qed

theorem validateEmail_pattern_witness:
  "email_shape (js ''a@b.com'') \<and> validateEmail (js ''a@b.com'')
   \<and> at_sign \<notin> set (js ''not-an-email'') \<and> \<not> validateEmail (js ''not-an-email'')
   \<and> \<not> validateEmail (js ''a@b'')"
proof -
  have split: "js ''a@b.com'' = js ''a'' @ [at_sign] @ js ''b'' @ [dot] @ js ''com''"
    by (simp add: js_def)
  have "plain_run (js ''a'')" "plain_run (js ''b'')" "plain_run (js ''com'')"
    by (simp_all add: plain_run_def js_def isSpace_def)
  with split have shape: "email_shape (js ''a@b.com'')"
    unfolding email_shape_def by blast
  have no_at: "at_sign \<notin> set (js ''not-an-email'')" by (simp add: js_def)
  have no_dot: "\<forall>a b. js ''a@b'' = a @ at_sign # b \<longrightarrow> dot \<notin> set b"
  proof (intro allI impI)
    fix a b
    assume e: "js ''a@b'' = a @ at_sign # b"
    have "dot \<notin> set (js ''a@b'')" by (simp add: js_def)
    then show "dot \<notin> set b" unfolding e by simp
  qed
  from validateEmail_pattern [of "js ''a@b.com''"] shape
  have "validateEmail (js ''a@b.com'')" by blast
  moreover from validateEmail_pattern [of "js ''not-an-email''"] no_at
  have "\<not> validateEmail (js ''not-an-email'')" by blast
  moreover from validateEmail_pattern [of "js ''a@b''"] no_dot
  have "\<not> validateEmail (js ''a@b'')" by blast
  ultimately show ?thesis using shape no_at by blast
qed

section \<open>Transport factory: proofs\<close>

lemma createTransporter_fallback:
  "createTransporter env None = FromProfile (gmail_profile env)"
  "s \<notin> set (map fst (config env)) \<Longrightarrow> s \<notin> set object_prototype_keys \<Longrightarrow>
     createTransporter env (Some s) = FromProfile (gmail_profile env)"
  by (simp_all add: createTransporter_def get_property_def config_def js_def map_of_eq_None_iff)

text \<open>
  C6. The fallback to the gmail profile is missed for a selector that names a member of
  \<open>Object.prototype\<close>: \<open>config["constructor"]\<close> is the inherited \<open>Object\<close> function, which is
  truthy, so it is what \<open>nodemailer.createTransport\<close> receives.
\<close>

theorem createTransporter_prototype_member:
  "createTransporter env (Some (js ''constructor'')) = FromPrototype (js ''constructor'')
   \<and> createTransporter env (Some (js ''constructor'')) \<noteq> FromProfile (gmail_profile env)"
  by (simp add: createTransporter_def get_property_def config_def object_prototype_keys_def
        js_def)

section \<open>Single send: proofs\<close>

text \<open>
  C8. A single send request in which \<open>to\<close> or \<open>subject\<close> is missing, or both \<open>text\<close> and
  \<open>html\<close> are, is answered with status 400 and the message "Missing required fields: to,
  subject, and either text or html"; no transport is created and nothing is sent.
\<close>

theorem send_email_missing_fields:
  assumes "\<not> truthy (req_to req) \<or> \<not> truthy (req_subject req)
           \<or> (\<not> truthy (req_text req) \<and> \<not> truthy (req_html req))"
  shows "send_email env provider req =
           (\<lparr>status = 400,
             body = Error ''Missing required fields: to, subject, and either text or html''\<rparr>,
            [])"
  using assms by (auto simp: send_email_def Let_def)

theorem send_email_missing_fields_witness:
  "req_text (empty_request\<lparr>req_to := Some (js ''a@b.com''), req_subject := Some (js ''Hi'')\<rparr>)
     = None
   \<and> req_html (empty_request\<lparr>req_to := Some (js ''a@b.com''), req_subject := Some (js ''Hi'')\<rparr>)
     = None
   \<and> send_email no_environment accepting_provider
       (empty_request\<lparr>req_to := Some (js ''a@b.com''), req_subject := Some (js ''Hi'')\<rparr>) =
      (\<lparr>status = 400,
        body = Error ''Missing required fields: to, subject, and either text or html''\<rparr>, [])"
proof -
  let ?req = "empty_request\<lparr>req_to := Some (js ''a@b.com''), req_subject := Some (js ''Hi'')\<rparr>"
  have fields: "req_text ?req = None" "req_html ?req = None"
    by (simp_all add: empty_request_def)
  then have "\<not> truthy (req_to ?req) \<or> \<not> truthy (req_subject ?req)
           \<or> (\<not> truthy (req_text ?req) \<and> \<not> truthy (req_html ?req))"
    by (simp add: truthy_def)
  from send_email_missing_fields [OF this] fields show ?thesis by simp
qed

text \<open>
  C10 (as the code has it). An empty string counts as missing. A single send request with
  \<open>text\<close> the empty string and no \<open>html\<close> gets the 400 missing-fields reply. A bulk request
  with the empty string as \<open>subject\<close> gets the bulk 400 missing-fields reply provided its
  \<open>recipients\<close> array is present and non-empty; the recipients gate comes first.
\<close>

theorem empty_string_is_missing:
  "(req_text req = Some [] \<and> req_html req = None \<longrightarrow>
      send_email env provider req =
        (\<lparr>status = 400,
          body = Error ''Missing required fields: to, subject, and either text or html''\<rparr>,
         []))
   \<and> (req_subject req = Some [] \<and> req_recipients req = Some rs \<and> rs \<noteq> [] \<longrightarrow>
      send_bulk_email env provider req =
        (\<lparr>status = 400,
          body = Error ''Missing required fields: subject, and either text or html''\<rparr>, []))"
  by (auto simp: send_email_def send_bulk_email_def Let_def truthy_def)

theorem empty_string_is_missing_witness:
  "send_email no_environment accepting_provider
     (empty_request\<lparr>req_to := Some (js ''a@b.com''), req_subject := Some (js ''Hi''),
        req_text := Some []\<rparr>) =
     (\<lparr>status = 400,
       body = Error ''Missing required fields: to, subject, and either text or html''\<rparr>, [])
   \<and> send_bulk_email no_environment accepting_provider
     (empty_request\<lparr>req_recipients := Some [js ''a@b.com''], req_subject := Some [],
        req_text := Some (js ''Hello'')\<rparr>) =
     (\<lparr>status = 400,
       body = Error ''Missing required fields: subject, and either text or html''\<rparr>, [])"
proof -
  let ?single = "empty_request\<lparr>req_to := Some (js ''a@b.com''), req_subject := Some (js ''Hi''),
        req_text := Some []\<rparr>"
  let ?bulk = "empty_request\<lparr>req_recipients := Some [js ''a@b.com''], req_subject := Some [],
        req_text := Some (js ''Hello'')\<rparr>"
  have a: "req_text ?single = Some [] \<and> req_html ?single = None"
    by (simp add: empty_request_def)
  have b: "req_subject ?bulk = Some [] \<and> req_recipients ?bulk = Some [js ''a@b.com'']
             \<and> [js ''a@b.com''] \<noteq> []"
    by (simp add: empty_request_def)
  from empty_string_is_missing
         [where req = ?single and env = no_environment and provider = accepting_provider] a
       empty_string_is_missing
         [where req = ?bulk and rs = "[js ''a@b.com'']" and env = no_environment
            and provider = accepting_provider] b
  show ?thesis by blast
qed

text \<open>
  Where the claim as stated fails: a bulk request with the empty string as \<open>subject\<close> and
  no \<open>recipients\<close> is answered by the recipients gate, not with the missing-fields message.
\<close>

theorem empty_subject_counterexample:
  "req_subject (empty_request\<lparr>req_subject := Some [], req_text := Some (js ''Hello'')\<rparr>) = Some []
   \<and> send_bulk_email no_environment accepting_provider
       (empty_request\<lparr>req_subject := Some [], req_text := Some (js ''Hello'')\<rparr>) =
      (\<lparr>status = 400, body = Error ''Recipients array is required and cannot be empty''\<rparr>, [])
   \<and> body (fst (send_bulk_email no_environment accepting_provider
       (empty_request\<lparr>req_subject := Some [], req_text := Some (js ''Hello'')\<rparr>))) \<noteq>
      Error ''Missing required fields: subject, and either text or html''"
  by (simp add: send_bulk_email_def Let_def empty_request_def)

section \<open>Bulk send: proofs\<close>

lemma valid_example: "validateEmail (js ''a@b.com'')"
  by (simp add: validateEmail_def emailRegex_def js_def isSpace_def)


lemma bulk_message_2_1:
  "bulk_message (Suc (Suc 0)) (Suc 0) = ''Bulk email completed. 2 sent, 1 failed''"
  by code_simp






lemma send_each_outcome:
  "send_each provider t mk i rs (results, errors, events) =
     (results @ deliveries provider t mk i rs, errors @ failures provider t mk i rs,
      events @ map (\<lambda>r. SendMail t (mk r)) rs)"
  by (induction rs arbitrary: i results errors events) (simp_all split: sum.splits)

lemma outcome_lengths:
  "length (deliveries provider t mk i rs) + length (failures provider t mk i rs) = length rs"
  by (induction rs arbitrary: i) (simp_all split: sum.splits)

lemma sent_to_sends:
  "sent_to (map (\<lambda>r. SendMail t (mk r)) rs) = map (\<lambda>r. mail_to (mk r)) rs"
  by (induction rs) simp_all

lemma send_bulk_email_sends:
  assumes rs: "req_recipients req = Some rs" and ne: "rs \<noteq> []" and le: "length rs \<le> 50"
      and valid: "\<forall>e \<in> set rs. validateEmail e"
      and fields: "truthy (req_subject req)" "truthy (req_text req) \<or> truthy (req_html req)"
  shows "send_bulk_email env provider req =
           (\<lparr>status = 200,
             body = BulkCompleted
               (bulk_message
                  (length (deliveries provider (bulk_transport env req) (bulk_mail env req) 0 rs))
                  (length (failures provider (bulk_transport env req) (bulk_mail env req) 0 rs)))
               (deliveries provider (bulk_transport env req) (bulk_mail env req) 0 rs)
               (failures provider (bulk_transport env req) (bulk_mail env req) 0 rs)\<rparr>,
            CreateTransport (bulk_transport env req) #
              map (\<lambda>r. SendMail (bulk_transport env req) (bulk_mail env req r)) rs)"
proof -
  from valid have none: "filter (\<lambda>email. \<not> validateEmail email) rs = []"
    by (simp add: filter_empty_conv)
  have mk: "(\<lambda>recipient.
              \<lparr>mail_from = sender env (req_from req), mail_to = Some recipient,
               mail_subject = req_subject req, mail_text = req_text req,
               mail_html = req_html req, mail_attachments = None\<rparr>) = bulk_mail env req"
    by (rule ext) (simp add: bulk_mail_def)
  show ?thesis
    using rs ne le fields
    by (simp add: send_bulk_email_def Let_def none mk bulk_transport_def [symmetric]
          send_each_outcome del: send_each.simps)
qed

text \<open>
  C1. In a bulk request that passes the gates, every recipient gets its own \<open>sendMail\<close>
  call, in order, whatever the earlier calls answered: an accepted call adds a delivery to
  \<open>results\<close>, a rejected call adds a failure to \<open>errors\<close>, the two lists together have
  one entry per recipient, and the reply has status 200 however many calls were rejected.
  In particular, with three valid recipients of which the provider rejects only the second,
  \<open>results\<close> holds the first and third recipient and \<open>errors\<close> the second.
\<close>

theorem bulk_partial_failure:
  assumes rs: "req_recipients req = Some rs" and ne: "rs \<noteq> []" and le: "length rs \<le> 50"
      and valid: "\<forall>e \<in> set rs. validateEmail e"
      and fields: "truthy (req_subject req)" "truthy (req_text req) \<or> truthy (req_html req)"
  shows "send_bulk_email env provider req =
           (\<lparr>status = 200,
             body = BulkCompleted
               (bulk_message
                  (length (deliveries provider (bulk_transport env req) (bulk_mail env req) 0 rs))
                  (length (failures provider (bulk_transport env req) (bulk_mail env req) 0 rs)))
               (deliveries provider (bulk_transport env req) (bulk_mail env req) 0 rs)
               (failures provider (bulk_transport env req) (bulk_mail env req) 0 rs)\<rparr>,
            CreateTransport (bulk_transport env req) #
              map (\<lambda>r. SendMail (bulk_transport env req) (bulk_mail env req r)) rs)
         \<and> length (deliveries provider (bulk_transport env req) (bulk_mail env req) 0 rs)
             + length (failures provider (bulk_transport env req) (bulk_mail env req) 0 rs)
             = length rs
         \<and> sent_to (snd (send_bulk_email env provider req)) = map Some rs
         \<and> (\<forall>r1 r2 r3.
               rs = [r1, r2, r3] \<and> (\<forall>t m. \<not> isl (provider t 0 m))
               \<and> (\<forall>t m. isl (provider t 1 m)) \<and> (\<forall>t m. \<not> isl (provider t 2 m)) \<longrightarrow>
               (\<exists>id1 id3 message events.
                  send_bulk_email env provider req =
                    (\<lparr>status = 200,
                      body = BulkCompleted ''Bulk email completed. 2 sent, 1 failed''
                               [Delivered r1 id1, Delivered r3 id3] [Failed r2 message]\<rparr>,
                     events)
                  \<and> sent_to events = [Some r1, Some r2, Some r3]))"
proof (intro conjI allI impI)
  let ?t = "bulk_transport env req"
  let ?mk = "bulk_mail env req"
  note reply = send_bulk_email_sends [OF rs ne le valid fields, of env provider]
  show "send_bulk_email env provider req =
           (\<lparr>status = 200,
             body = BulkCompleted
               (bulk_message (length (deliveries provider ?t ?mk 0 rs))
                  (length (failures provider ?t ?mk 0 rs)))
               (deliveries provider ?t ?mk 0 rs) (failures provider ?t ?mk 0 rs)\<rparr>,
            CreateTransport ?t # map (\<lambda>r. SendMail ?t (?mk r)) rs)"
    by (rule reply)
  show "length (deliveries provider ?t ?mk 0 rs) + length (failures provider ?t ?mk 0 rs)
          = length rs"
    by (rule outcome_lengths)
  have to: "(\<lambda>r. mail_to (?mk r)) = Some" by (rule ext) (simp add: bulk_mail_def)
  show sent: "sent_to (snd (send_bulk_email env provider req)) = map Some rs"
    by (simp add: reply sent_to_sends to)
  fix r1 r2 r3
  assume three: "rs = [r1, r2, r3] \<and> (\<forall>t m. \<not> isl (provider t 0 m))
               \<and> (\<forall>t m. isl (provider t 1 m)) \<and> (\<forall>t m. \<not> isl (provider t 2 m))"
  then have "\<not> isl (provider ?t 0 (?mk r1))" by blast
  then obtain i1 where a: "provider ?t 0 (?mk r1) = Inr i1"
    by (cases "provider ?t 0 (?mk r1)") auto
  from three have "isl (provider ?t 1 (?mk r2))" by blast
  then obtain e2 where b: "provider ?t (Suc 0) (?mk r2) = Inl e2"
    by (cases "provider ?t 1 (?mk r2)") auto
  from three have "\<not> isl (provider ?t 2 (?mk r3))" by blast
  then obtain i3 where c: "provider ?t (Suc (Suc 0)) (?mk r3) = Inr i3"
    by (cases "provider ?t 2 (?mk r3)") (auto simp: numeral_2_eq_2)
  have d: "deliveries provider ?t ?mk 0 [r1, r2, r3] =
             [Delivered r1 (messageId i1), Delivered r3 (messageId i3)]"
    and f: "failures provider ?t ?mk 0 [r1, r2, r3] = [Failed r2 e2]"
    by (simp_all add: a b c)
  from three have rs3: "rs = [r1, r2, r3]" by simp
  have "send_bulk_email env provider req =
          (\<lparr>status = 200,
            body = BulkCompleted ''Bulk email completed. 2 sent, 1 failed''
              [Delivered r1 (messageId i1), Delivered r3 (messageId i3)] [Failed r2 e2]\<rparr>,
           snd (send_bulk_email env provider req))"
    unfolding reply unfolding rs3 d f by (simp add: bulk_message_2_1)
  moreover have "sent_to (snd (send_bulk_email env provider req)) = [Some r1, Some r2, Some r3]"
    using sent rs3 by simp
  ultimately show "\<exists>id1 id3 message events.
                  send_bulk_email env provider req =
                    (\<lparr>status = 200,
                      body = BulkCompleted ''Bulk email completed. 2 sent, 1 failed''
                               [Delivered r1 id1, Delivered r3 id3] [Failed r2 message]\<rparr>,
                     events)
                  \<and> sent_to events = [Some r1, Some r2, Some r3]"
    by blast
qed

theorem bulk_partial_failure_witness:
  "validateEmail (js ''a@b.com'') \<and> validateEmail (js ''c@d.org'') \<and> validateEmail (js ''e@f.net'')
   \<and> status (fst (send_bulk_email no_environment second_call_fails
        (empty_request\<lparr>req_recipients := Some [js ''a@b.com'', js ''c@d.org'', js ''e@f.net''],
           req_subject := Some (js ''Hi''), req_html := Some (js ''<p>Hello</p>'')\<rparr>))) = 200
   \<and> sent_to (snd (send_bulk_email no_environment second_call_fails
        (empty_request\<lparr>req_recipients := Some [js ''a@b.com'', js ''c@d.org'', js ''e@f.net''],
           req_subject := Some (js ''Hi''), req_html := Some (js ''<p>Hello</p>'')\<rparr>))) =
       [Some (js ''a@b.com''), Some (js ''c@d.org''), Some (js ''e@f.net'')]
   \<and> (\<exists>id1 id3 message events.
         send_bulk_email no_environment second_call_fails
           (empty_request\<lparr>req_recipients := Some [js ''a@b.com'', js ''c@d.org'', js ''e@f.net''],
              req_subject := Some (js ''Hi''), req_html := Some (js ''<p>Hello</p>'')\<rparr>) =
           (\<lparr>status = 200,
             body = BulkCompleted ''Bulk email completed. 2 sent, 1 failed''
                      [Delivered (js ''a@b.com'') id1, Delivered (js ''e@f.net'') id3]
                      [Failed (js ''c@d.org'') message]\<rparr>, events))"
proof -
  let ?rs = "[js ''a@b.com'', js ''c@d.org'', js ''e@f.net'']"
  let ?req = "empty_request\<lparr>req_recipients := Some ?rs,
           req_subject := Some (js ''Hi''), req_html := Some (js ''<p>Hello</p>'')\<rparr>"
  have rs: "req_recipients ?req = Some ?rs" by (simp add: empty_request_def)
  have ne: "?rs \<noteq> []" and le: "length ?rs \<le> 50" by simp_all
  have valid: "validateEmail (js ''a@b.com'')" "validateEmail (js ''c@d.org'')"
    "validateEmail (js ''e@f.net'')"
    by (simp_all add: validateEmail_def emailRegex_def js_def isSpace_def)
  then have all_valid: "\<forall>e \<in> set ?rs. validateEmail e" by simp
  have fields: "truthy (req_subject ?req)" "truthy (req_text ?req) \<or> truthy (req_html ?req)"
    by (simp_all add: empty_request_def truthy_def js_def)
  have calls: "?rs = ?rs \<and> (\<forall>t m. \<not> isl (second_call_fails t 0 m))
      \<and> (\<forall>t m. isl (second_call_fails t 1 m)) \<and> (\<forall>t m. \<not> isl (second_call_fails t 2 m))"
    by (simp add: second_call_fails_def)
  note general = bulk_partial_failure [OF rs ne le all_valid fields,
      of no_environment second_call_fails]
  from general have sent: "sent_to (snd (send_bulk_email no_environment second_call_fails ?req)) =
      map Some ?rs"
    by (elim conjE)
  from general have "\<forall>r1 r2 r3.
               ?rs = [r1, r2, r3] \<and> (\<forall>t m. \<not> isl (second_call_fails t 0 m))
               \<and> (\<forall>t m. isl (second_call_fails t 1 m))
               \<and> (\<forall>t m. \<not> isl (second_call_fails t 2 m)) \<longrightarrow>
               (\<exists>id1 id3 message events.
                  send_bulk_email no_environment second_call_fails ?req =
                    (\<lparr>status = 200,
                      body = BulkCompleted ''Bulk email completed. 2 sent, 1 failed''
                               [Delivered r1 id1, Delivered r3 id3] [Failed r2 message]\<rparr>,
                     events)
                  \<and> sent_to events = [Some r1, Some r2, Some r3])"
    by (elim conjE)
  from this [rule_format, OF calls]
  obtain id1 id3 message events where reply:
    "send_bulk_email no_environment second_call_fails ?req =
       (\<lparr>status = 200,
         body = BulkCompleted ''Bulk email completed. 2 sent, 1 failed''
                  [Delivered (js ''a@b.com'') id1, Delivered (js ''e@f.net'') id3]
                  [Failed (js ''c@d.org'') message]\<rparr>, events)"
    by blast
  then have "status (fst (send_bulk_email no_environment second_call_fails ?req)) = 200"
    by simp
  with sent reply valid show ?thesis by auto
qed

section \<open>Templated send: proofs\<close>

lemma prototype_keys_checked:
  "list_all (\<lambda>k. k \<notin> set (map fst templates) \<and> k \<noteq> []) object_prototype_keys"
  by code_simp

lemma prototype_keys_unregistered:
  assumes "t \<in> set object_prototype_keys"
  shows "map_of templates t = None" and "t \<noteq> []"
  using assms prototype_keys_checked
  by (simp_all only: list_all_iff map_of_eq_None_iff set_map) blast+

text \<open>
  C5. The lookup \<open>templates[template]\<close> misses the rejection for an identifier that names a
  member of \<open>Object.prototype\<close>, such as \<open>constructor\<close>: it is not a registry entry, yet the
  inherited member is truthy, so no 400 is returned. With a valid \<open>to\<close> address and no
  variables a transport is created and a message without subject and body is sent; the
  reply is 200 or 500 as the provider answers.
\<close>

theorem template_prototype_member:
  assumes "req_to req = Some addr" "validateEmail addr"
      and "req_template req = Some t" "t \<in> set object_prototype_keys"
      and "req_variables req = None \<or> req_variables req = Some []"
  shows "let transporter = createTransporter env (service_or_default (req_service req));
             mailOptions = \<lparr>mail_from = sender env (req_from req), mail_to = Some addr,
                            mail_subject = None, mail_text = None, mail_html = None,
                            mail_attachments = None\<rparr>
         in send_template_email env provider req =
              Some (case provider transporter 0 mailOptions of
                      Inr info \<Rightarrow>
                        (\<lparr>status = 200,
                          body = TemplateSent ''Template email sent successfully''
                                   (messageId info) t\<rparr>,
                         [CreateTransport transporter, SendMail transporter mailOptions])
                    | Inl message \<Rightarrow>
                        (\<lparr>status = 500,
                          body = ErrorDetails ''Failed to send template email'' message\<rparr>,
                         [CreateTransport transporter, SendMail transporter mailOptions,
                          ConsoleError ''Template email sending error:'' message]))"
proof -
  from assms(2) have addr: "addr \<noteq> []" by (auto simp: validateEmail_def emailRegex_def)
  from assms(4) have lookup: "get_property templates t = Inherited t"
    by (simp add: get_property_def prototype_keys_unregistered)
  from assms(4) have t: "t \<noteq> []" by (rule prototype_keys_unregistered)
  from assms(5) have keys: "map fst (case req_variables req of None \<Rightarrow> [] | Some v \<Rightarrow> v) = []"
    by auto
  show ?thesis
    using assms(1-3) addr t
    by (simp add: send_template_email_def Let_def truthy_def ToString_def lookup keys
          split: sum.splits)
qed

theorem template_prototype_member_witness:
  "validateEmail (js ''a@b.com'')
   \<and> js ''constructor'' \<in> set object_prototype_keys
   \<and> js ''constructor'' \<notin> set (map fst templates)
   \<and> send_template_email no_environment accepting_provider
       (empty_request\<lparr>req_to := Some (js ''a@b.com''), req_template := Some (js ''constructor'')\<rparr>) =
      Some (\<lparr>status = 200,
             body = TemplateSent ''Template email sent successfully'' (js ''<1@mail>'')
                      (js ''constructor'')\<rparr>,
            [CreateTransport (FromProfile (gmail_profile no_environment)),
             SendMail (FromProfile (gmail_profile no_environment))
               \<lparr>mail_from = None, mail_to = Some (js ''a@b.com''), mail_subject = None,
                mail_text = None, mail_html = None, mail_attachments = None\<rparr>])"
proof -
  let ?req = "empty_request\<lparr>req_to := Some (js ''a@b.com''),
                req_template := Some (js ''constructor'')\<rparr>"
  have member: "js ''constructor'' \<in> set object_prototype_keys"
    by (simp add: object_prototype_keys_def)
  have unknown: "js ''constructor'' \<notin> set (map fst templates)"
    by (simp add: templates_def js_def)
  have fields: "req_to ?req = Some (js ''a@b.com'')" "req_template ?req = Some (js ''constructor'')"
    "req_variables ?req = None \<or> req_variables ?req = Some []"
    "req_service ?req = None" "req_from ?req = None"
    by (simp_all add: empty_request_def)
  have transport: "createTransporter no_environment (service_or_default None) =
      FromProfile (gmail_profile no_environment)"
    by (simp add: createTransporter_def service_or_default_def get_property_def config_def
          js_def)
  have from_field: "sender no_environment None = None"
    by (simp add: sender_def js_or_def truthy_def no_environment_def)
  from template_prototype_member
         [OF fields(1) valid_example fields(2) member fields(3),
          of no_environment accepting_provider]
  have "send_template_email no_environment accepting_provider ?req =
      Some (\<lparr>status = 200,
             body = TemplateSent ''Template email sent successfully'' (js ''<1@mail>'')
                      (js ''constructor'')\<rparr>,
            [CreateTransport (FromProfile (gmail_profile no_environment)),
             SendMail (FromProfile (gmail_profile no_environment))
               \<lparr>mail_from = None, mail_to = Some (js ''a@b.com''), mail_subject = None,
                mail_text = None, mail_html = None, mail_attachments = None\<rparr>])"
    by (simp add: Let_def fields(4,5) transport from_field accepting_provider_def)
  with valid_example member unknown show ?thesis by blast
qed

text \<open>
  Every other identifier outside the registry is rejected as intended: 400, "Template not
  found" and the four registry names, with nothing sent; the comparison is exact, so
  \<open>Welcome\<close> is unknown. An empty identifier is answered by the presence gate before the
  lookup: 400 "Missing required fields: to, template".
\<close>

lemma unknown_template_rejected:
  "(req_to req = Some addr \<and> validateEmail addr \<and> req_template req = Some t \<and> t \<noteq> []
      \<and> t \<notin> set (map fst templates) \<and> t \<notin> set object_prototype_keys \<longrightarrow>
    send_template_email env provider req =
      Some (\<lparr>status = 400,
             body = TemplateNotFound ''Template not found''
               (map js [''welcome'', ''art_submission'', ''reset_password'', ''notification''])\<rparr>,
            []))
   \<and> (req_template req = Some [] \<longrightarrow>
    send_template_email env provider req =
      Some (\<lparr>status = 400, body = Error ''Missing required fields: to, template''\<rparr>, []))"
proof (intro conjI impI)
  assume a: "req_to req = Some addr \<and> validateEmail addr \<and> req_template req = Some t \<and> t \<noteq> []
      \<and> t \<notin> set (map fst templates) \<and> t \<notin> set object_prototype_keys"
  then have "addr \<noteq> []" by (auto simp: validateEmail_def emailRegex_def)
  moreover from a have "map_of templates t = None" by (simp add: map_of_eq_None_iff)
  moreover have "map fst templates =
      map js [''welcome'', ''art_submission'', ''reset_password'', ''notification'']"
    by (simp add: templates_def)
  ultimately show "send_template_email env provider req =
      Some (\<lparr>status = 400,
             body = TemplateNotFound ''Template not found''
               (map js [''welcome'', ''art_submission'', ''reset_password'', ''notification''])\<rparr>,
            [])"
    using a by (simp add: send_template_email_def Let_def truthy_def ToString_def get_property_def)
next
  assume "req_template req = Some []"
  then show "send_template_email env provider req =
      Some (\<lparr>status = 400, body = Error ''Missing required fields: to, template''\<rparr>, [])"
    by (simp add: send_template_email_def Let_def truthy_def)
qed

lemma Welcome_unknown:
  "js ''Welcome'' \<notin> set (map fst templates)" "js ''Welcome'' \<notin> set object_prototype_keys"
  "js ''Welcome'' \<noteq> []"
  by (simp_all add: templates_def object_prototype_keys_def js_def)

lemma unknown_template_rejected_example:
  "validateEmail (js ''a@b.com'')
   \<and> send_template_email no_environment accepting_provider
        (empty_request\<lparr>req_to := Some (js ''a@b.com''), req_template := Some (js ''Welcome'')\<rparr>) =
      Some (\<lparr>status = 400,
             body = TemplateNotFound ''Template not found''
               (map js [''welcome'', ''art_submission'', ''reset_password'', ''notification''])\<rparr>,
            [])
   \<and> send_template_email no_environment accepting_provider
        (empty_request\<lparr>req_to := Some (js ''a@b.com''), req_template := Some []\<rparr>) =
      Some (\<lparr>status = 400, body = Error ''Missing required fields: to, template''\<rparr>, [])"
proof -
  let ?req1 = "empty_request\<lparr>req_to := Some (js ''a@b.com''), req_template := Some (js ''Welcome'')\<rparr>"
  let ?req2 = "empty_request\<lparr>req_to := Some (js ''a@b.com''), req_template := Some []\<rparr>"
  have hyp1: "req_to ?req1 = Some (js ''a@b.com'') \<and> validateEmail (js ''a@b.com'')
      \<and> req_template ?req1 = Some (js ''Welcome'') \<and> js ''Welcome'' \<noteq> []
      \<and> js ''Welcome'' \<notin> set (map fst templates) \<and> js ''Welcome'' \<notin> set object_prototype_keys"
    using valid_example Welcome_unknown by (simp add: empty_request_def)
  have hyp2: "req_template ?req2 = Some []" by (simp add: empty_request_def)
  from unknown_template_rejected
         [where req = ?req1 and addr = "js ''a@b.com''" and t = "js ''Welcome''"
            and env = no_environment and provider = accepting_provider,
          THEN conjunct1, rule_format, OF hyp1]
       unknown_template_rejected
         [where req = ?req2 and env = no_environment and provider = accepting_provider,
          THEN conjunct2, rule_format, OF hyp2]
       valid_example
  show ?thesis by blast
qed

section \<open>Variable substitution: proofs\<close>

lemma token_Cons: "token key = lbrace # lbrace # key @ [rbrace, rbrace]"
  by (simp add: token_def js_def)

lemma GetSubstitution_plain:
  "dollar \<notin> set v \<Longrightarrow> GetSubstitution m p f v = v"
  by (induction m p f v rule: GetSubstitution.induct) auto

lemma replace_from_text:
  "lbrace \<notin> set l \<Longrightarrow> replace_from key v sc (l @ rest) = l @ replace_from key v (sc @ l) rest"
proof (induction l arbitrary: sc)
  case Nil
  then show ?case by simp
next
  case (Cons c l)
  then have "\<not> prefix (token key) (c # l @ rest)" by (simp add: token_Cons)
  with Cons show ?case by simp
qed

lemma key_prefix:
  "brace_free key \<Longrightarrow> brace_free k \<Longrightarrow> prefix (key @ [rbrace, rbrace]) (k @ [rbrace, rbrace] @ rest)
     \<Longrightarrow> key = k"
proof (induction key arbitrary: k)
  case Nil
  then show ?case by (cases k) (auto simp: brace_free_def)
next
  case (Cons c cs)
  then show ?case by (cases k) (auto simp: brace_free_def)
qed

lemma token_prefix:
  "brace_free key \<Longrightarrow> brace_free k \<Longrightarrow> prefix (token key) (token k @ rest) \<longleftrightarrow> key = k"
  using key_prefix [of key k rest] by (auto simp: token_Cons)

lemma replace_from_placeholder:
  assumes "brace_free key" "brace_free k" "dollar \<notin> set v"
  shows "replace_from key v sc (token k @ rest) =
           (if k = key then v else token k) @ replace_from key v (sc @ token k) rest"
proof (cases "k = key")
  case True
  have "replace_from key v sc (lbrace # lbrace # key @ [rbrace, rbrace] @ rest) =
          GetSubstitution (token key) sc rest v @ replace_from key v (sc @ token key) rest"
    using token_prefix [of key key rest] assms by (simp add: token_Cons)
  with True assms show ?thesis by (simp add: token_Cons GetSubstitution_plain)
next
  case False
  with assms have n0: "\<not> prefix (token key) (token k @ rest)" by (simp add: token_prefix)
  have n1: "\<not> prefix (token key) (lbrace # k @ [rbrace, rbrace] @ rest)"
    using assms(2) by (cases k) (auto simp: token_Cons brace_free_def)
  have "lbrace \<notin> set (k @ [rbrace, rbrace])"
    using assms(2) by (auto simp: brace_free_def list_all_iff)
  from replace_from_text [OF this, of key v "sc @ [lbrace, lbrace]" rest]
  have tail: "replace_from key v (sc @ [lbrace, lbrace]) (k @ [rbrace, rbrace] @ rest) =
                k @ [rbrace, rbrace] @ replace_from key v (sc @ token k) rest"
    by (simp add: token_Cons)
  have "replace_from key v sc (lbrace # lbrace # k @ [rbrace, rbrace] @ rest) =
          lbrace # lbrace # replace_from key v (sc @ [lbrace, lbrace]) (k @ [rbrace, rbrace] @ rest)"
    using n0 n1 by (simp add: token_Cons)
  with tail False show ?thesis by (simp add: token_Cons)
qed

lemma replace_from_flatten:
  assumes "brace_free key" "dollar \<notin> set v"
  shows "placeholder_form segs \<Longrightarrow>
           replace_from key v sc (flatten segs) = flatten (map (substitute key v) segs)"
proof (induction segs arbitrary: sc)
  case Nil
  then show ?case by simp
next
  case (Cons seg segs)
  then have rest: "placeholder_form segs" by (simp add: placeholder_form_def)
  show ?case
  proof (cases seg)
    case (Text s)
    with Cons.prems have "lbrace \<notin> set s"
      by (auto simp: placeholder_form_def brace_free_def list_all_iff)
    with Text Cons.IH [OF rest] show ?thesis by (simp add: replace_from_text)
  next
    case (Placeholder k)
    with Cons.prems have "brace_free k" by (simp add: placeholder_form_def)
    with Placeholder Cons.IH [OF rest] assms show ?thesis
      by (simp add: replace_from_placeholder)
  qed
qed


lemma braces_are_syntax:
  "lbrace \<in> set syntax_characters" "rbrace \<in> set syntax_characters"
  by (simp_all add: syntax_characters_def js_def)

lemma plain_key_brace_free: "plain_key key \<Longrightarrow> brace_free key"
  unfolding plain_key_def brace_free_def list_all_iff
  using braces_are_syntax by blast

lemma safe_value_brace_free: "safe_value v \<Longrightarrow> brace_free v"
  by (auto simp: safe_value_def brace_free_def list_all_iff)

lemma safe_value_no_dollar: "safe_value v \<Longrightarrow> dollar \<notin> set v"
  by (auto simp: safe_value_def list_all_iff)

lemma substitute_ok: "brace_free v \<Longrightarrow> segment_ok seg \<Longrightarrow> segment_ok (substitute key v seg)"
  by (cases seg) simp_all

lemma substitute_form:
  "brace_free v \<Longrightarrow> placeholder_form segs \<Longrightarrow> placeholder_form (map (substitute key v) segs)"
  by (induction segs) (simp_all add: placeholder_form_def substitute_ok)

lemma fill_Nil: "map (fill variables []) segs = segs"
proof (induction segs)
  case Nil
  then show ?case by simp
next
  case (Cons seg segs)
  then show ?case by (cases seg) simp_all
qed

lemma fill_Cons:
  "map (fill variables keys) (map (substitute key (or_empty (map_of variables key))) segs) =
     map (fill variables (key # keys)) segs"
proof (induction segs)
  case Nil
  then show ?case by simp
next
  case (Cons seg segs)
  then show ?case by (cases seg) simp_all
qed

lemma render_flatten:
  assumes "\<forall>k \<in> set keys. plain_key k \<and> safe_value (or_empty (map_of variables k))"
      and "placeholder_form S" "placeholder_form H"
  shows "render variables keys (flatten S, flatten H) =
           (flatten (map (fill variables keys) S), flatten (map (fill variables keys) H))"
  using assms
proof (induction keys arbitrary: S H)
  case Nil
  then show ?case by (simp add: fill_Nil)
next
  case (Cons key keys)
  define v where "v = or_empty (map_of variables key)"
  from Cons.prems have key: "brace_free key" and v: "brace_free v" "dollar \<notin> set v"
    by (simp_all add: v_def plain_key_brace_free safe_value_brace_free safe_value_no_dollar)
  have S: "replace_global key v (flatten S) = flatten (map (substitute key v) S)"
    and H: "replace_global key v (flatten H) = flatten (map (substitute key v) H)"
    using Cons.prems key v by (simp_all add: replace_global_def replace_from_flatten)
  have form: "placeholder_form (map (substitute key v) S)"
    "placeholder_form (map (substitute key v) H)"
    using Cons.prems v by (simp_all add: substitute_form)
  have rest: "\<forall>k \<in> set keys. plain_key k \<and> safe_value (or_empty (map_of variables k))"
    using Cons.prems by simp
  have "render variables (key # keys) (flatten S, flatten H) =
          render variables keys (replace_global key v (flatten S), replace_global key v (flatten H))"
    by (simp add: v_def)
  also have "\<dots> = render variables keys
          (flatten (map (substitute key v) S), flatten (map (substitute key v) H))"
    by (simp only: S H)
  also have "\<dots> = (flatten (map (fill variables keys) (map (substitute key v) S)),
         flatten (map (fill variables keys) (map (substitute key v) H)))"
    by (rule Cons.IH [OF rest form])
  also have "\<dots> = (flatten (map (fill variables (key # keys)) S),
         flatten (map (fill variables (key # keys)) H))"
    unfolding v_def by (simp only: fill_Cons)
  finally show ?case .
qed

lemma fill_set: "set keys' = set keys \<Longrightarrow> fill variables keys' seg = fill variables keys seg"
  by (cases seg) simp_all

lemma in_form_Inside:
  "in_form Inside s \<Longrightarrow>
     \<exists>k r. s = k @ [rbrace, rbrace] @ r \<and> brace_free k \<and> in_form Outside r"
proof (induction s)
  case Nil
  then show ?case by simp
next
  case (Cons c cs)
  show ?case
  proof (cases "c = rbrace")
    case True
    with Cons.prems have "in_form Closing cs" by simp
    then obtain r where "cs = rbrace # r" "in_form Outside r" by (cases cs) auto
    with True have "c # cs = [] @ [rbrace, rbrace] @ r \<and> brace_free [] \<and> in_form Outside r"
      by (simp add: brace_free_def)
    then show ?thesis by blast
  next
    case False
    with Cons.prems have c: "c \<noteq> lbrace" and "in_form Inside cs" by simp_all
    with Cons.IH obtain k r where "cs = k @ [rbrace, rbrace] @ r" "brace_free k" "in_form Outside r"
      by blast
    with c False
    have "c # cs = (c # k) @ [rbrace, rbrace] @ r \<and> brace_free (c # k) \<and> in_form Outside r"
      by (simp add: brace_free_def)
    then show ?thesis by blast
  qed
qed

lemma in_form_segments:
  "in_form Outside s \<Longrightarrow> \<exists>segs. placeholder_form segs \<and> flatten segs = s"
proof (induction s rule: length_induct)
  case (1 s)
  show ?case
  proof (cases s)
    case Nil
    have "placeholder_form [] \<and> flatten [] = []" by (simp add: placeholder_form_def)
    with Nil show ?thesis by blast
  next
    case (Cons c cs)
    show ?thesis
    proof (cases "c = lbrace")
      case True
      with Cons "1.prems" have "in_form Opening cs" by simp
      then obtain ds where ds: "cs = lbrace # ds" "in_form Inside ds" by (cases cs) auto
      from in_form_Inside [OF ds(2)] obtain k r
        where kr: "ds = k @ [rbrace, rbrace] @ r" "brace_free k" "in_form Outside r" by blast
      with Cons ds have "length r < length s" by simp
      with "1.IH" kr(3) obtain segs where "placeholder_form segs" "flatten segs = r" by blast
      with kr Cons True ds
      have "placeholder_form (Placeholder k # segs) \<and> flatten (Placeholder k # segs) = s"
        by (simp add: placeholder_form_def token_Cons)
      then show ?thesis by blast
    next
      case False
      with Cons "1.prems" have c: "c \<noteq> rbrace" and "in_form Outside cs" by simp_all
      with "1.IH" Cons obtain segs where "placeholder_form segs" "flatten segs = cs" by auto
      with False c Cons
      have "placeholder_form (Text [c] # segs) \<and> flatten (Text [c] # segs) = s"
        by (simp add: placeholder_form_def brace_free_def)
      then show ?thesis by blast
    qed
  qed
qed

lemma registry_placeholder_text:
  "list_all (\<lambda>(name, t). placeholder_text (tpl_subject t) \<and> placeholder_text (tpl_html t))
     templates"
  by code_simp

lemma notification_template:
  "map_of templates (js ''notification'') =
     Some \<lparr>tpl_subject = js ''{{subject}}'', tpl_html = notification_html\<rparr>"
  by (simp add: templates_def js_def)

lemma welcome_template:
  "map_of templates (js ''welcome'') =
     Some \<lparr>tpl_subject = js ''Welcome to {{appName}}!'', tpl_html = welcome_html\<rparr>"
  by (simp add: templates_def js_def)

text \<open>
  C9 (as the code has it). For a subject and a body in placeholder form (all four registry
  templates are), plain keys, and values that contain neither a brace nor a dollar sign
  (falsy values count as the empty string), the rendered subject and body do not depend on
  the order in which the keys are processed.
\<close>

theorem render_order_independent:
  assumes "placeholder_text subject" "placeholder_text html"
      and "\<forall>k \<in> set keys. plain_key k \<and> safe_value (or_empty (map_of variables k))"
      and "set keys' = set keys"
  shows "render variables keys' (subject, html) = render variables keys (subject, html)"
proof -
  from assms(1) obtain S where S: "placeholder_form S" "flatten S = subject"
    unfolding placeholder_text_def using in_form_segments by blast
  from assms(2) obtain H where H: "placeholder_form H" "flatten H = html"
    unfolding placeholder_text_def using in_form_segments by blast
  have keys': "\<forall>k \<in> set keys'. plain_key k \<and> safe_value (or_empty (map_of variables k))"
    unfolding assms(4) by (rule assms(3))
  have fills: "fill variables keys' = fill variables keys"
    by (rule ext) (rule fill_set [OF assms(4)])
  have "render variables keys' (flatten S, flatten H) =
          render variables keys (flatten S, flatten H)"
    by (simp only: render_flatten [OF keys' S(1) H(1)] render_flatten [OF assms(3) S(1) H(1)]
          fills)
  then show ?thesis by (simp only: S(2) H(2))
qed

theorem render_order_independent_witness:
  "placeholder_text (js ''{{subject}}'') \<and> placeholder_text notification_html
   \<and> list_all (\<lambda>k. plain_key k \<and> safe_value (or_empty (map_of hello_variables k)))
        (map fst hello_variables)
   \<and> render hello_variables (rev (map fst hello_variables))
        (js ''{{subject}}'', notification_html) =
      render hello_variables (map fst hello_variables) (js ''{{subject}}'', notification_html)"
proof -
  have s: "placeholder_text (js ''{{subject}}'')" by code_simp
  have h: "placeholder_text notification_html" by code_simp
  have l: "list_all (\<lambda>k. plain_key k \<and> safe_value (or_empty (map_of hello_variables k)))
        (map fst hello_variables)"
    by code_simp
  then have k: "\<forall>k \<in> set (map fst hello_variables).
      plain_key k \<and> safe_value (or_empty (map_of hello_variables k))"
    by (simp only: list_all_iff)
  have r: "set (rev (map fst hello_variables)) = set (map fst hello_variables)" by simp
  from render_order_independent [OF s h k r] s h l show ?thesis by blast
qed

text \<open>
  Where the claim as stated fails: the template \<open>notification\<close> with the mapping
  \<open>{subject: "{{title}}", title: "T"}\<close>. Neither key occurs in the other's token, yet the
  subject is \<open>T\<close> when \<open>subject\<close> is processed first and \<open>{{title}}\<close> when \<open>title\<close> is.
\<close>

theorem render_order_counterexample:
  "\<not> sublist (js ''subject'') (token (js ''title''))
   \<and> \<not> sublist (js ''title'') (token (js ''subject''))
   \<and> fst (render chained_variables [js ''subject'', js ''title'']
            (js ''{{subject}}'', notification_html)) = js ''T''
   \<and> fst (render chained_variables [js ''title'', js ''subject'']
            (js ''{{subject}}'', notification_html)) = js ''{{title}}''
   \<and> render chained_variables [js ''subject'', js ''title'']
         (js ''{{subject}}'', notification_html) \<noteq>
       render chained_variables [js ''title'', js ''subject'']
         (js ''{{subject}}'', notification_html)"
proof -
  have a: "\<not> sublist (js ''subject'') (token (js ''title''))" by code_simp
  have b: "\<not> sublist (js ''title'') (token (js ''subject''))" by code_simp
  have c: "fst (render chained_variables [js ''subject'', js ''title'']
            (js ''{{subject}}'', notification_html)) = js ''T''"
    by code_simp
  have d: "fst (render chained_variables [js ''title'', js ''subject'']
            (js ''{{subject}}'', notification_html)) = js ''{{title}}''"
    by code_simp
  have "js ''T'' \<noteq> js ''{{title}}''" by (simp add: js_def)
  with c d have "render chained_variables [js ''subject'', js ''title'']
         (js ''{{subject}}'', notification_html) \<noteq>
       render chained_variables [js ''title'', js ''subject'']
         (js ''{{subject}}'', notification_html)"
    by metis
  with a b c d show ?thesis by blast
qed

text \<open>
  C2. The template \<open>welcome\<close> rendered with \<open>{name: "Al", appName: "Cash$$"}\<close>: the
  replacement string is expanded as a replacement pattern, so \<open>$$\<close> comes out as a single
  dollar sign and the subject is not the template with the key's value in the
  placeholder's place.
\<close>

theorem render_dollar_value:
  "fst (render cash_variables (map fst cash_variables)
          (js ''Welcome to {{appName}}!'', welcome_html)) = js ''Welcome to Cash$!''
   \<and> fst (render cash_variables (map fst cash_variables)
          (js ''Welcome to {{appName}}!'', welcome_html)) \<noteq> js ''Welcome to Cash$$!''"
proof -
  have "fst (render cash_variables (map fst cash_variables)
          (js ''Welcome to {{appName}}!'', welcome_html)) = js ''Welcome to Cash$!''"
    by code_simp
  moreover have "js ''Welcome to Cash$!'' \<noteq> js ''Welcome to Cash$$!''"
    by (simp add: js_def)
  ultimately show ?thesis by simp
qed

end
